theory Spec2Isabelle
  imports Main
begin

section \<open>Skip list set: the data model of SkipListSet.hpp\<close>

text \<open>
  The element type of the template is a linear order (the source uses \<open>==\<close> and
  \<open><\<close> on it) with a default-constructed value, which the source writes
  \<open>ElementType()\<close> and stores in the sentinel keys.
\<close>

instantiation int :: default
begin
definition default_int :: int where "default_int = 0"
instance ..
end

datatype SkipListKind = Normal | NegInf | PosInf

datatype 'a SkipListKey = SkipListKey (key_kind: SkipListKind) (key_element: 'a)

text \<open>\<open>SkipListKey::operator==\<close> and \<open>SkipListKey::operator<\<close>.\<close>

definition key_eq :: "'a SkipListKey \<Rightarrow> 'a SkipListKey \<Rightarrow> bool" where
  "key_eq k other \<longleftrightarrow>
     key_kind k = key_kind other \<and> (key_kind k \<noteq> Normal \<or> key_element k = key_element other)"

definition key_less :: "'a::linorder SkipListKey \<Rightarrow> 'a SkipListKey \<Rightarrow> bool" where
  "key_less k other =
     (case key_kind k of
        NegInf \<Rightarrow> key_kind other \<noteq> NegInf
      | PosInf \<Rightarrow> False
      | Normal \<Rightarrow> key_kind other = PosInf \<or> (key_kind other = Normal \<and> key_element k < key_element other))"

text \<open>
  \<open>SkipListLevelTester\<close> is an abstract class with two virtual member functions.
  \<open>shouldOccupyNextLevel\<close> is not const: it answers and leaves the tester in a new
  state. An object of the class is modelled by its behaviour.
\<close>

codatatype 'a SkipListLevelTester =
  LevelTester (shouldOccupyNextLevel: "'a \<Rightarrow> bool \<times> 'a SkipListLevelTester")
              (clone: "'a SkipListLevelTester")

text \<open>
  \<open>struct Node\<close> and \<open>struct LNode\<close>. A pointer is an address or \<open>None\<close> for
  \<open>nullptr\<close>. The key a node owns (\<open>SkipListKey* value\<close>) is allocated with the
  node and never shared, so the node record holds it.
\<close>

record 'a Node =
  node_value :: "'a SkipListKey"
  node_below :: "nat option"
  node_next :: "nat option"

record LNode =
  level_value :: nat
  level_below :: "nat option"
  level_next :: "nat option"

text \<open>
  The free store: the cells of each type, the next unused address, and the number of
  allocations that will still succeed before \<open>new\<close> throws \<open>std::bad_alloc\<close>.
\<close>

record 'a heap =
  nodes :: "nat \<Rightarrow> 'a Node option"
  lnodes :: "nat \<Rightarrow> LNode option"
  brk :: nat
  avail :: nat

text \<open>The data members of \<open>class SkipListSet\<close>.\<close>

record 'a SkipListSet =
  levelTester :: "'a SkipListLevelTester"
  elements :: int
  head :: "nat option"
  tail :: "nat option"

text \<open>
  What a call can do other than return: dereference a null pointer or a pointer to a
  deleted cell (undefined behaviour in the source), call \<open>std::terminate\<close> because
  an exception reaches a \<open>noexcept\<close> boundary, or let \<open>std::bad_alloc\<close> escape.
  \<open>BadAlloc\<close> carries what the exception leaves behind: the object the member
  function ran on (for a constructor, the object as far as it was built) and the free
  store.
\<close>

datatype 'a error =
  NullDeref | DanglingDeref | Terminated | BadAlloc "'a SkipListSet \<times> 'a heap"

definition node_at :: "'a heap \<Rightarrow> nat option \<Rightarrow> 'a error + 'a Node" where
  "node_at h p =
     (case p of
        None \<Rightarrow> Inl NullDeref
      | Some a \<Rightarrow> (case nodes h a of None \<Rightarrow> Inl DanglingDeref | Some n \<Rightarrow> Inr n))"

definition lnode_at :: "'a heap \<Rightarrow> nat option \<Rightarrow> 'a error + LNode" where
  "lnode_at h p =
     (case p of
        None \<Rightarrow> Inl NullDeref
      | Some a \<Rightarrow> (case lnodes h a of None \<Rightarrow> Inl DanglingDeref | Some l \<Rightarrow> Inr l))"

text \<open>\<open>new Node(...)\<close> and \<open>new LNode(...)\<close>: \<open>None\<close> when the allocation fails.\<close>

definition new_Node :: "'a Node \<Rightarrow> 'a heap \<Rightarrow> (nat \<times> 'a heap) option" where
  "new_Node n h =
     (if avail h = 0 then None
      else Some (brk h, h\<lparr>nodes := (nodes h)(brk h \<mapsto> n), brk := Suc (brk h),
                          avail := avail h - 1\<rparr>))"

definition new_LNode :: "LNode \<Rightarrow> 'a heap \<Rightarrow> (nat \<times> 'a heap) option" where
  "new_LNode l h =
     (if avail h = 0 then None
      else Some (brk h, h\<lparr>lnodes := (lnodes h)(brk h \<mapsto> l), brk := Suc (brk h),
                          avail := avail h - 1\<rparr>))"

text \<open>Assignments through a pointer to a live cell: \<open>a->next = q\<close> and the like.\<close>

definition set_node_next :: "nat \<Rightarrow> nat option \<Rightarrow> 'a heap \<Rightarrow> 'a heap" where
  "set_node_next a q h =
     (case nodes h a of
        None \<Rightarrow> h
      | Some n \<Rightarrow> h\<lparr>nodes := (nodes h)(a \<mapsto> n\<lparr>node_next := q\<rparr>)\<rparr>)"

definition set_node_below :: "nat \<Rightarrow> nat option \<Rightarrow> 'a heap \<Rightarrow> 'a heap" where
  "set_node_below a q h =
     (case nodes h a of
        None \<Rightarrow> h
      | Some n \<Rightarrow> h\<lparr>nodes := (nodes h)(a \<mapsto> n\<lparr>node_below := q\<rparr>)\<rparr>)"

definition set_level_next :: "nat \<Rightarrow> nat option \<Rightarrow> 'a heap \<Rightarrow> 'a heap" where
  "set_level_next a q h =
     (case lnodes h a of
        None \<Rightarrow> h
      | Some l \<Rightarrow> h\<lparr>lnodes := (lnodes h)(a \<mapsto> l\<lparr>level_next := q\<rparr>)\<rparr>)"

definition set_level_below :: "nat \<Rightarrow> nat option \<Rightarrow> 'a heap \<Rightarrow> 'a heap" where
  "set_level_below a q h =
     (case lnodes h a of
        None \<Rightarrow> h
      | Some l \<Rightarrow> h\<lparr>lnodes := (lnodes h)(a \<mapsto> l\<lparr>level_below := q\<rparr>)\<rparr>)"

section \<open>The member functions\<close>

subsection \<open>updateTail\<close>

partial_function (option) updateTail_loop ::
  "'a heap \<Rightarrow> nat option \<Rightarrow> nat option \<Rightarrow> ('a error + nat option) option" where
  "updateTail_loop h p t =
     (case p of
        None \<Rightarrow> Some (Inr t)
      | Some a \<Rightarrow>
          (case nodes h a of
             None \<Rightarrow> Some (Inl DanglingDeref)
           | Some n \<Rightarrow>
               updateTail_loop h (node_next n) (if node_next n = None then Some a else t)))"

definition updateTail ::
  "'a SkipListSet \<Rightarrow> 'a heap \<Rightarrow> ('a error + 'a SkipListSet) option" where
  "updateTail this h =
     (case lnode_at h (head this) of
        Inl e \<Rightarrow> Some (Inl e)
      | Inr hl \<Rightarrow>
          (case updateTail_loop h (level_next hl) (tail this) of
             None \<Rightarrow> None
           | Some (Inl e) \<Rightarrow> Some (Inl e)
           | Some (Inr t) \<Rightarrow> Some (Inr (this\<lparr>tail := t\<rparr>))))"

subsection \<open>search\<close>

text \<open>
  In the source the loop variable \<open>p\<close> and \<open>current\<close> are assigned together and are
  equal at every test, so the loop carries one of them. The value returned after the
  loop is \<open>current\<close>, which is null there.
\<close>

partial_function (option) search_loop ::
  "'a::linorder heap \<Rightarrow> 'a SkipListKey \<Rightarrow> int \<Rightarrow> nat option \<Rightarrow> int
     \<Rightarrow> ('a error + nat option) option" where
  "search_loop h newKey minLevel p level =
     (case p of
        None \<Rightarrow> Some (Inr None)
      | Some a \<Rightarrow>
          (case nodes h a of
             None \<Rightarrow> Some (Inl DanglingDeref)
           | Some n \<Rightarrow>
               if key_eq (node_value n) newKey then Some (Inr None)
               else
                 (case node_next n of
                    None \<Rightarrow> search_loop h newKey minLevel (node_next n) level
                  | Some b \<Rightarrow>
                      (case nodes h b of
                         None \<Rightarrow> Some (Inl DanglingDeref)
                       | Some nb \<Rightarrow>
                           if key_less newKey (node_value nb) then
                             (if level - 1 < minLevel then Some (Inr (Some a))
                              else search_loop h newKey minLevel (node_below n) (level - 1))
                           else search_loop h newKey minLevel (node_next n) level))))"

definition search ::
  "'a::linorder \<Rightarrow> int \<Rightarrow> 'a SkipListSet \<Rightarrow> 'a heap \<Rightarrow> ('a error + nat option) option" where
  "search element minLevel this h =
     (case lnode_at h (head this) of
        Inl e \<Rightarrow> Some (Inl e)
      | Inr hl \<Rightarrow>
          search_loop h (SkipListKey Normal element) minLevel (level_next hl)
            (int (level_value hl)))"

subsection \<open>createNewLevel, insertNewNode and add\<close>

text \<open>
  The arguments of a \<open>new\<close> expression are evaluated, then the cell is allocated.
  When the allocation fails the exception leaves the function at once: the error value
  carries the object and the free store as they are at that point. The cells
  \<open>createNewLevel\<close> has just allocated are addressed directly where the source writes
  \<open>head->next\<close>, \<open>head->next->next\<close> and \<open>head->below\<close>.
\<close>

definition createNewLevel ::
  "'a::{linorder,default} \<Rightarrow> nat option \<Rightarrow> 'a SkipListSet \<Rightarrow> 'a heap
     \<Rightarrow> ('a error + 'a SkipListSet \<times> 'a heap) option" where
  "createNewLevel element current this h =
     (case lnode_at h (head this) of
        Inl e \<Rightarrow> Some (Inl e)
      | Inr hl \<Rightarrow>
          (case new_LNode \<lparr>level_value = level_value hl + 1, level_below = head this,
                           level_next = None\<rparr> h of
             None \<Rightarrow> Some (Inl (BadAlloc (this, h)))
           | Some (l, h1) \<Rightarrow>
               let this1 = this\<lparr>head := Some l\<rparr> in
               (case new_Node \<lparr>node_value = SkipListKey NegInf default,
                               node_below = level_next hl, node_next = None\<rparr> h1 of
                  None \<Rightarrow> Some (Inl (BadAlloc (this1, h1)))
                | Some (a, h2) \<Rightarrow>
                    let h3 = set_level_next l (Some a) h2 in
                    (case new_Node \<lparr>node_value = SkipListKey Normal element,
                                    node_below = current, node_next = None\<rparr> h3 of
                       None \<Rightarrow> Some (Inl (BadAlloc (this1, h3)))
                     | Some (b, h4) \<Rightarrow>
                         let h5 = set_node_next a (Some b) h4 in
                         (case new_Node \<lparr>node_value = SkipListKey PosInf default,
                                         node_below = tail this1, node_next = None\<rparr> h5 of
                            None \<Rightarrow> Some (Inl (BadAlloc (this1, h5)))
                          | Some (c, h6) \<Rightarrow>
                              let h7 = set_node_next b (Some c) h6 in
                              (case updateTail this1 h7 of
                                 None \<Rightarrow> None
                               | Some (Inl e) \<Rightarrow> Some (Inl e)
                               | Some (Inr this2) \<Rightarrow> Some (Inr (this2, h7))))))))"

definition insertNewNode ::
  "nat option \<Rightarrow> nat option \<Rightarrow> 'a \<Rightarrow> 'a SkipListSet \<Rightarrow> 'a heap
     \<Rightarrow> 'a error + nat option \<times> 'a heap" where
  "insertNewNode n current element this h =
     (case n of
        None \<Rightarrow> Inl NullDeref
      | Some a \<Rightarrow>
          (case nodes h a of
             None \<Rightarrow> Inl DanglingDeref
           | Some na \<Rightarrow>
               (case new_Node \<lparr>node_value = SkipListKey Normal element,
                               node_below = current, node_next = node_next na\<rparr> h of
                  None \<Rightarrow> Inl (BadAlloc (this, h))
                | Some (b, h1) \<Rightarrow> Inr (Some b, set_node_next a (Some b) h1))))"

text \<open>The promotion loop of \<open>add\<close>: \<open>while (levelTester->shouldOccupyNextLevel(element) != 0)\<close>.\<close>

partial_function (option) add_loop ::
  "'a::{linorder,default} \<Rightarrow> nat option \<Rightarrow> int \<Rightarrow> 'a SkipListSet \<Rightarrow> 'a heap
     \<Rightarrow> ('a error + 'a SkipListSet \<times> 'a heap) option" where
  "add_loop element temp currentLevel this h =
     (let r = shouldOccupyNextLevel (levelTester this) element;
          this0 = this\<lparr>levelTester := snd r\<rparr> in
      if \<not> fst r then Some (Inr (this0, h))
      else
          (case lnode_at h (head this0) of
             Inl e \<Rightarrow> Some (Inl e)
           | Inr hl \<Rightarrow>
               if currentLevel + 1 > int (level_value hl) then
                 (case createNewLevel element temp this0 h of
                    None \<Rightarrow> None
                  | Some (Inl e) \<Rightarrow> Some (Inl e)
                  | Some (Inr (this1, h1)) \<Rightarrow>
                      (case lnode_at h1 (head this1) of
                         Inl e \<Rightarrow> Some (Inl e)
                       | Inr hl1 \<Rightarrow>
                           (case node_at h1 (level_next hl1) of
                              Inl e \<Rightarrow> Some (Inl e)
                            | Inr n1 \<Rightarrow>
                                add_loop element (node_next n1) (currentLevel + 1) this1 h1)))
               else
                 (case search element (currentLevel + 1) this0 h of
                    None \<Rightarrow> None
                  | Some (Inl e) \<Rightarrow> Some (Inl e)
                  | Some (Inr n) \<Rightarrow>
                      (case insertNewNode n temp element this0 h of
                         Inl e \<Rightarrow> Some (Inl e)
                       | Inr (temp1, h1) \<Rightarrow>
                           add_loop element temp1 (currentLevel + 1) this0 h1))))"

text \<open>
  \<open>add\<close>. The handler of the first \<open>try\<close> block runs \<open>delete temp\<close> on a null
  \<open>temp\<close> and rethrows; nothing has been linked at that point.
\<close>

definition add ::
  "'a::{linorder,default} \<Rightarrow> 'a SkipListSet \<Rightarrow> 'a heap
     \<Rightarrow> ('a error + 'a SkipListSet \<times> 'a heap) option" where
  "add element this h =
     (case search element 0 this h of
        None \<Rightarrow> None
      | Some (Inl e) \<Rightarrow> Some (Inl e)
      | Some (Inr current) \<Rightarrow>
          (case current of
             None \<Rightarrow> Some (Inl NullDeref)
           | Some c \<Rightarrow>
               (case nodes h c of
                  None \<Rightarrow> Some (Inl DanglingDeref)
                | Some cn \<Rightarrow>
                    (case new_Node \<lparr>node_value = SkipListKey Normal element,
                                    node_below = None, node_next = node_next cn\<rparr> h of
                       None \<Rightarrow> Some (Inl (BadAlloc (this, h)))
                     | Some (temp, h1) \<Rightarrow>
                         add_loop element (Some temp) 0
                           (this\<lparr>elements := elements this + 1\<rparr>)
                           (set_node_next c (Some temp) h1)))))"

subsection \<open>contains, size and the introspection accessors\<close>

definition contains ::
  "'a::linorder \<Rightarrow> 'a SkipListSet \<Rightarrow> 'a heap \<Rightarrow> ('a error + bool) option" where
  "contains element this h =
     (case search element 0 this h of
        None \<Rightarrow> None
      | Some (Inl e) \<Rightarrow> Some (Inl e)
      | Some (Inr r) \<Rightarrow> Some (Inr (r = None)))"

text \<open>
  \<open>size\<close> converts the \<open>int\<close> member \<open>elements\<close> to \<open>unsigned int\<close>, and
  \<open>elementsOnLevel\<close> converts \<open>counter - 2\<close>: 32-bit conversions.
\<close>

definition to_unsigned :: "int \<Rightarrow> nat" where
  "to_unsigned i = nat (i mod 4294967296)"

definition size_of :: "'a SkipListSet \<Rightarrow> nat" where
  "size_of this = to_unsigned (elements this)"

definition levelCount :: "'a SkipListSet \<Rightarrow> 'a heap \<Rightarrow> 'a error + nat" where
  "levelCount this h =
     (case lnode_at h (head this) of Inl e \<Rightarrow> Inl e | Inr hl \<Rightarrow> Inr (level_value hl + 1))"

partial_function (option) getLevel_loop ::
  "'a heap \<Rightarrow> nat option \<Rightarrow> nat \<Rightarrow> ('a error + nat option) option" where
  "getLevel_loop h p level =
     (case p of
        None \<Rightarrow> Some (Inr None)
      | Some a \<Rightarrow>
          (case lnodes h a of
             None \<Rightarrow> Some (Inl DanglingDeref)
           | Some l \<Rightarrow>
               if level_value l = level then Some (Inr (Some a))
               else getLevel_loop h (level_below l) level))"

definition getLevel ::
  "nat \<Rightarrow> 'a SkipListSet \<Rightarrow> 'a heap \<Rightarrow> ('a error + nat option) option" where
  "getLevel level this h = getLevel_loop h (head this) level"

partial_function (option) count_loop ::
  "'a heap \<Rightarrow> nat option \<Rightarrow> int \<Rightarrow> ('a error + int) option" where
  "count_loop h n counter =
     (case n of
        None \<Rightarrow> Some (Inr counter)
      | Some a \<Rightarrow>
          (case nodes h a of
             None \<Rightarrow> Some (Inl DanglingDeref)
           | Some na \<Rightarrow> count_loop h (node_next na) (counter + 1)))"

definition elementsOnLevel ::
  "nat \<Rightarrow> 'a SkipListSet \<Rightarrow> 'a heap \<Rightarrow> ('a error + nat) option" where
  "elementsOnLevel level this h =
     (case getLevel level this h of
        None \<Rightarrow> None
      | Some (Inl e) \<Rightarrow> Some (Inl e)
      | Some (Inr None) \<Rightarrow> Some (Inr 0)
      | Some (Inr (Some l)) \<Rightarrow>
          (case lnodes h l of
             None \<Rightarrow> Some (Inl DanglingDeref)
           | Some ln \<Rightarrow>
               (case count_loop h (level_next ln) 0 of
                  None \<Rightarrow> None
                | Some (Inl e) \<Rightarrow> Some (Inl e)
                | Some (Inr counter) \<Rightarrow> Some (Inr (to_unsigned (counter - 2))))))"

partial_function (option) isElementOnLevel_loop ::
  "'a heap \<Rightarrow> 'a SkipListKey \<Rightarrow> nat option \<Rightarrow> ('a error + bool) option" where
  "isElementOnLevel_loop h newKey p =
     (case p of
        None \<Rightarrow> Some (Inr False)
      | Some a \<Rightarrow>
          (case nodes h a of
             None \<Rightarrow> Some (Inl DanglingDeref)
           | Some n \<Rightarrow>
               if key_eq newKey (node_value n) then Some (Inr True)
               else isElementOnLevel_loop h newKey (node_next n)))"

definition isElementOnLevel ::
  "'a \<Rightarrow> nat \<Rightarrow> 'a SkipListSet \<Rightarrow> 'a heap \<Rightarrow> ('a error + bool) option" where
  "isElementOnLevel element level this h =
     (case getLevel level this h of
        None \<Rightarrow> None
      | Some (Inl e) \<Rightarrow> Some (Inl e)
      | Some (Inr None) \<Rightarrow> Some (Inr False)
      | Some (Inr (Some l)) \<Rightarrow>
          (case lnodes h l of
             None \<Rightarrow> Some (Inl DanglingDeref)
           | Some ln \<Rightarrow> isElementOnLevel_loop h (SkipListKey Normal element) (level_next ln)))"

subsection \<open>deleteNode, deleteSkipList, the constructor and the destructor\<close>

partial_function (option) deleteNode ::
  "nat option \<Rightarrow> 'a heap \<Rightarrow> ('a error + 'a heap) option" where
  "deleteNode n h =
     (case n of
        None \<Rightarrow> Some (Inr h)
      | Some a \<Rightarrow>
          (case nodes h a of
             None \<Rightarrow> Some (Inl DanglingDeref)
           | Some na \<Rightarrow> deleteNode (node_next na) (h\<lparr>nodes := (nodes h)(a := None)\<rparr>)))"

partial_function (option) deleteSkipList ::
  "nat option \<Rightarrow> 'a heap \<Rightarrow> ('a error + 'a heap) option" where
  "deleteSkipList p h =
     (case p of
        None \<Rightarrow> Some (Inr h)
      | Some a \<Rightarrow>
          (case lnodes h a of
             None \<Rightarrow> Some (Inl DanglingDeref)
           | Some l \<Rightarrow>
               (case deleteNode (level_next l) h of
                  None \<Rightarrow> None
                | Some (Inl e) \<Rightarrow> Some (Inl e)
                | Some (Inr h1) \<Rightarrow>
                    deleteSkipList (level_below l) (h1\<lparr>lnodes := (lnodes h1)(a := None)\<rparr>))))"


text \<open>
  A handler \<open>catch (...) { deleteSkipList(p); throw; }\<close>, where \<open>p\<close> is the
  \<open>head\<close> of the record the exception carries: the constructors run
  \<open>deleteSkipList(head)\<close> on the object under construction, copy assignment runs
  \<open>deleteSkipList(temp)\<close> on its local list, for which \<open>mk\<close> puts back the object
  that the rethrown exception leaves. The other failures are not exceptions and pass
  through.
\<close>

definition catch_delete ::
  "('a SkipListSet \<Rightarrow> 'a SkipListSet) \<Rightarrow> 'a error \<Rightarrow> ('a error + 'b) option" where
  "catch_delete mk e =
     (case e of
        BadAlloc (t, h) \<Rightarrow>
          (case deleteSkipList (head t) h of
             None \<Rightarrow> None
           | Some (Inl e1) \<Rightarrow> Some (Inl e1)
           | Some (Inr h1) \<Rightarrow> Some (Inl (BadAlloc (mk t, h1))))
      | NullDeref \<Rightarrow> Some (Inl NullDeref)
      | DanglingDeref \<Rightarrow> Some (Inl DanglingDeref)
      | Terminated \<Rightarrow> Some (Inl Terminated))"

text \<open>
  \<open>SkipListSet(std::unique_ptr<SkipListLevelTester>)\<close>. The members \<open>elements\<close>
  and \<open>tail\<close> have no initializer; the body assigns them before it returns. The inner
  \<open>new Node\<close> of the nested expression is an argument of the outer one.
\<close>

definition SkipListSet_new ::
  "'a::{linorder,default} SkipListLevelTester \<Rightarrow> 'a heap
     \<Rightarrow> ('a error + 'a SkipListSet \<times> 'a heap) option" where
  "SkipListSet_new t h =
     (let this0 = \<lparr>levelTester = t, elements = 0, head = None, tail = None\<rparr> in
      case new_LNode \<lparr>level_value = 0, level_below = None, level_next = None\<rparr> h of
        None \<Rightarrow> catch_delete id (BadAlloc (this0, h))
      | Some (l, h1) \<Rightarrow>
          let this1 = this0\<lparr>head := Some l\<rparr> in
          (case new_Node \<lparr>node_value = SkipListKey PosInf default, node_below = None,
                          node_next = None\<rparr> h1 of
             None \<Rightarrow> catch_delete id (BadAlloc (this1, h1))
           | Some (b, h2) \<Rightarrow>
               (case new_Node \<lparr>node_value = SkipListKey NegInf default, node_below = None,
                               node_next = Some b\<rparr> h2 of
                  None \<Rightarrow> catch_delete id (BadAlloc (this1, h2))
                | Some (a, h3) \<Rightarrow>
                    let h4 = set_level_next l (Some a) h3 in
                    (case updateTail this1 h4 of
                       None \<Rightarrow> None
                     | Some (Inl e) \<Rightarrow> Some (Inl e)
                     | Some (Inr this2) \<Rightarrow> Some (Inr (this2\<lparr>elements := 0\<rparr>, h4))))))"


subsection \<open>Copying: linkLevels, linkNext, linkBelow\<close>

text \<open>
  \<open>linkLevels(s, list)\<close>. The reference parameter \<open>list\<close> is the \<open>head\<close> of the
  record \<open>this\<close>: the copy constructor passes its own \<open>head\<close>, copy assignment a
  local variable, modelled by a record of its own. The handlers inside the loop run
  \<open>deleteSkipList(temp)\<close> on a null \<open>temp\<close>, since the allocation that failed never
  assigned it.
\<close>

partial_function (option) linkLevels_loop ::
  "nat option \<Rightarrow> nat option \<Rightarrow> 'a SkipListSet \<Rightarrow> 'a heap
     \<Rightarrow> ('a error + 'a SkipListSet \<times> 'a heap) option" where
  "linkLevels_loop p current this h =
     (case p of
        None \<Rightarrow> Some (Inr (this, h))
      | Some a \<Rightarrow>
          (case lnodes h a of
             None \<Rightarrow> Some (Inl DanglingDeref)
           | Some l \<Rightarrow>
               (case new_LNode \<lparr>level_value = level_value l, level_below = None,
                                level_next = None\<rparr> h of
                  None \<Rightarrow> Some (Inl (BadAlloc (this, h)))
                | Some (temp, h1) \<Rightarrow>
                    (case current of
                       Some c \<Rightarrow>
                         linkLevels_loop (level_below l) (Some temp) this
                           (set_level_below c (Some temp) h1)
                     | None \<Rightarrow>
                         linkLevels_loop (level_below l) (Some temp)
                           (this\<lparr>head := Some temp\<rparr>) h1))))"

definition linkLevels ::
  "'a SkipListSet \<Rightarrow> 'a SkipListSet \<Rightarrow> 'a heap
     \<Rightarrow> ('a error + 'a SkipListSet \<times> 'a heap) option" where
  "linkLevels s this h = linkLevels_loop (head s) None this h"

text \<open>
  \<open>linkNext(s, list)\<close>: the inner loop copies one chain of keys, the outer loop walks
  the levels of \<open>s\<close> and of the copy together.
\<close>

partial_function (option) linkNext_row ::
  "nat option \<Rightarrow> nat option \<Rightarrow> nat option \<Rightarrow> 'a SkipListSet \<Rightarrow> 'a heap
     \<Rightarrow> ('a error + 'a heap) option" where
  "linkNext_row n cur current this h =
     (case n of
        None \<Rightarrow> Some (Inr h)
      | Some a \<Rightarrow>
          (case nodes h a of
             None \<Rightarrow> Some (Inl DanglingDeref)
           | Some na \<Rightarrow>
               (case new_Node \<lparr>node_value = node_value na, node_below = None,
                               node_next = None\<rparr> h of
                  None \<Rightarrow> Some (Inl (BadAlloc (this, h)))
                | Some (temp, h1) \<Rightarrow>
                    (case cur of
                       Some c \<Rightarrow>
                         linkNext_row (node_next na) (Some temp) current this
                           (set_node_next c (Some temp) h1)
                     | None \<Rightarrow>
                         (case lnode_at h1 current of
                            Inl e \<Rightarrow> Some (Inl e)
                          | Inr cl \<Rightarrow>
                              linkNext_row (node_next na) (Some temp) current this
                                (set_level_next (the current) (Some temp) h1))))))"

partial_function (option) linkNext_loop ::
  "nat option \<Rightarrow> nat option \<Rightarrow> 'a SkipListSet \<Rightarrow> 'a heap \<Rightarrow> ('a error + 'a heap) option" where
  "linkNext_loop p current this h =
     (case p of
        None \<Rightarrow> Some (Inr h)
      | Some a \<Rightarrow>
          (case lnodes h a of
             None \<Rightarrow> Some (Inl DanglingDeref)
           | Some l \<Rightarrow>
               (case linkNext_row (level_next l) None current this h of
                  None \<Rightarrow> None
                | Some (Inl e) \<Rightarrow> Some (Inl e)
                | Some (Inr h1) \<Rightarrow>
                    (case lnode_at h1 current of
                       Inl e \<Rightarrow> Some (Inl e)
                     | Inr cl \<Rightarrow>
                         (case lnode_at h1 p of
                            Inl e \<Rightarrow> Some (Inl e)
                          | Inr l1 \<Rightarrow>
                              linkNext_loop (level_below l1) (level_below cl) this h1)))))"

definition linkNext ::
  "'a SkipListSet \<Rightarrow> 'a SkipListSet \<Rightarrow> 'a heap \<Rightarrow> ('a error + 'a heap) option" where
  "linkNext s this h = linkNext_loop (head s) (head this) this h"

text \<open>\<open>linkBelow(s, list)\<close>: the inner \<open>for\<close> loop over the level below, and the \<open>while\<close> loop.\<close>

partial_function (option) linkBelow_row ::
  "nat option \<Rightarrow> nat option \<Rightarrow> 'a heap \<Rightarrow> ('a error + 'a heap) option" where
  "linkBelow_row p cur h =
     (case p of
        None \<Rightarrow> Some (Inr h)
      | Some a \<Rightarrow>
          (case node_at h cur of
             Inl e \<Rightarrow> Some (Inl e)
           | Inr cn \<Rightarrow>
               (case nodes h a of
                  None \<Rightarrow> Some (Inl DanglingDeref)
                | Some pa \<Rightarrow>
                    if key_eq (node_value cn) (node_value pa) then
                      (let h1 = set_node_below (the cur) (Some a) h in
                       case nodes h1 a of
                         None \<Rightarrow> Some (Inl DanglingDeref)
                       | Some pa1 \<Rightarrow> linkBelow_row (node_next pa1) (node_next cn) h1)
                    else linkBelow_row (node_next pa) cur h)))"

partial_function (option) linkBelow_loop ::
  "nat option \<Rightarrow> 'a heap \<Rightarrow> ('a error + 'a heap) option" where
  "linkBelow_loop current h =
     (case lnode_at h current of
        Inl e \<Rightarrow> Some (Inl e)
      | Inr cl \<Rightarrow>
          (case level_below cl of
             None \<Rightarrow> Some (Inr h)
           | Some b \<Rightarrow>
               (case lnodes h b of
                  None \<Rightarrow> Some (Inl DanglingDeref)
                | Some bl \<Rightarrow>
                    (case linkBelow_row (level_next bl) (level_next cl) h of
                       None \<Rightarrow> None
                     | Some (Inl e) \<Rightarrow> Some (Inl e)
                     | Some (Inr h1) \<Rightarrow> linkBelow_loop (level_below cl) h1))))"

definition linkBelow :: "'a SkipListSet \<Rightarrow> 'a heap \<Rightarrow> ('a error + 'a heap) option" where
  "linkBelow this h = linkBelow_loop (head this) h"

text \<open>
  \<open>levelTester->clone()\<close> returns a new tester object: one more allocation.
\<close>

definition clone_tester ::
  "'a SkipListLevelTester \<Rightarrow> 'a heap \<Rightarrow> ('a SkipListLevelTester \<times> 'a heap) option" where
  "clone_tester t h =
     (if avail h = 0 then None else Some (clone t, h\<lparr>avail := avail h - 1\<rparr>))"

text \<open>
  The copy constructor. Its members are not initialized before the body runs: \<open>head\<close>
  and \<open>tail\<close> are modelled as null there, and the tester and the count of the record
  under construction are placeholders until the body assigns them.
\<close>

definition SkipListSet_copy ::
  "'a SkipListSet \<Rightarrow> 'a heap \<Rightarrow> ('a error + 'a SkipListSet \<times> 'a heap) option" where
  "SkipListSet_copy s h =
     (let this0 = \<lparr>levelTester = levelTester s, elements = elements s, head = None,
                    tail = None\<rparr> in
      case linkLevels s this0 h of
        None \<Rightarrow> None
      | Some (Inl e) \<Rightarrow> catch_delete id e
      | Some (Inr (this1, h1)) \<Rightarrow>
          (case linkNext s this1 h1 of
             None \<Rightarrow> None
           | Some (Inl e) \<Rightarrow> catch_delete id e
           | Some (Inr h2) \<Rightarrow>
               (case linkBelow this1 h2 of
                  None \<Rightarrow> None
                | Some (Inl e) \<Rightarrow> catch_delete id e
                | Some (Inr h3) \<Rightarrow>
                    (case updateTail this1 h3 of
                       None \<Rightarrow> None
                     | Some (Inl e) \<Rightarrow> catch_delete id e
                     | Some (Inr this2) \<Rightarrow>
                         (case clone_tester (levelTester s) h3 of
                            None \<Rightarrow>
                              catch_delete id (BadAlloc (this2\<lparr>elements := elements s\<rparr>, h3))
                          | Some (t, h4) \<Rightarrow>
                              Some (Inr (this2\<lparr>elements := elements s, levelTester := t\<rparr>,
                                         h4)))))))"

text \<open>
  Copy assignment. The local \<open>LNode* temp\<close> is the \<open>head\<close> of the record \<open>tmp\<close>.
  \<open>s\<close> is read through a const reference; the only members of \<open>*this\<close> written
  before the last read of \<open>s\<close> are \<open>head\<close> and \<open>tail\<close>, which are not read from
  \<open>s\<close> afterwards, so \<open>s\<close> is passed by value also when it is \<open>*this\<close>. The handler
  runs \<open>deleteSkipList(temp)\<close>; once \<open>temp\<close> has been reset to null it deletes
  nothing.
\<close>

definition copy_assign ::
  "'a SkipListSet \<Rightarrow> 'a SkipListSet \<Rightarrow> 'a heap
     \<Rightarrow> ('a error + 'a SkipListSet \<times> 'a heap) option" where
  "copy_assign this s h =
     (case linkLevels s (this\<lparr>head := None\<rparr>) h of
        None \<Rightarrow> None
      | Some (Inl e) \<Rightarrow> catch_delete (\<lambda>_. this) e
      | Some (Inr (tmp, h1)) \<Rightarrow>
          (case linkNext s tmp h1 of
             None \<Rightarrow> None
           | Some (Inl e) \<Rightarrow> catch_delete (\<lambda>_. this) e
           | Some (Inr h2) \<Rightarrow>
               (case linkBelow tmp h2 of
                  None \<Rightarrow> None
                | Some (Inl e) \<Rightarrow> catch_delete (\<lambda>_. this) e
                | Some (Inr h3) \<Rightarrow>
                    (case deleteSkipList (head this) h3 of
                       None \<Rightarrow> None
                     | Some (Inl e) \<Rightarrow> Some (Inl e)
                     | Some (Inr h4) \<Rightarrow>
                         (case updateTail (this\<lparr>head := head tmp\<rparr>) h4 of
                            None \<Rightarrow> None
                          | Some (Inl e) \<Rightarrow> Some (Inl e)
                          | Some (Inr this1) \<Rightarrow>
                              (case clone_tester (levelTester s) h4 of
                                 None \<Rightarrow>
                                   Some (Inl (BadAlloc (this1\<lparr>elements := elements s\<rparr>, h4)))
                               | Some (t, h5) \<Rightarrow>
                                   Some (Inr (this1\<lparr>elements := elements s,
                                                    levelTester := t\<rparr>, h5))))))))"

subsection \<open>Moving\<close>



section \<open>Runs and test doubles\<close>

text \<open>A free store with nothing allocated, in which \<open>n\<close> allocations succeed.\<close>

definition empty_heap :: "nat \<Rightarrow> 'a heap" where
  "empty_heap n = \<lparr>nodes = (\<lambda>_. None), lnodes = (\<lambda>_. None), brk = 0, avail = n\<rparr>"

text \<open>Calls of \<open>add\<close> in sequence; the first call that does not return ends the run.\<close>

fun adds ::
  "'a::{linorder,default} list \<Rightarrow> 'a SkipListSet \<Rightarrow> 'a heap
     \<Rightarrow> ('a error + 'a SkipListSet \<times> 'a heap) option" where
  "adds [] this h = Some (Inr (this, h))"
| "adds (x # xs) this h =
     (case add x this h of
        None \<Rightarrow> None
      | Some (Inl e) \<Rightarrow> Some (Inl e)
      | Some (Inr (this1, h1)) \<Rightarrow> adds xs this1 h1)"

text \<open>
  A set constructed in \<open>empty_heap n\<close> to which \<open>xs\<close> are then added: the object and
  the free store when every call returned, \<open>None\<close> otherwise. \<open>after st f\<close> is what
  the member function \<open>f\<close> gives on such a state.
\<close>

definition built ::
  "'a::{linorder,default} SkipListLevelTester \<Rightarrow> nat \<Rightarrow> 'a list
     \<Rightarrow> ('a SkipListSet \<times> 'a heap) option" where
  "built t n xs =
     (case SkipListSet_new t (empty_heap n) of
        Some (Inr (this, h)) \<Rightarrow>
          (case adds xs this h of Some (Inr st) \<Rightarrow> Some st | _ \<Rightarrow> None)
      | _ \<Rightarrow> None)"

definition after :: "('a SkipListSet \<times> 'a heap) option \<Rightarrow> ('a SkipListSet \<Rightarrow> 'a heap \<Rightarrow> 'b) \<Rightarrow> 'b option" where
  "after st f = (case st of None \<Rightarrow> None | Some (this, h) \<Rightarrow> Some (f this h))"


text \<open>
  Modelled from the spec: the deterministic test doubles of the promotion policy, which
  are not in the source. \<open>promoteNever\<close> is the policy of scenario A, which always
  answers false; \<open>promoteOnce seen\<close> is the policy of scenario B, which answers true
  exactly once per distinct element and then false (\<open>seen\<close> holds the elements it has
  answered true for). Each is its own clone.
\<close>

primcorec promoteNever :: "'a SkipListLevelTester" where
  "promoteNever = LevelTester (\<lambda>e. (False, promoteNever)) promoteNever"

primcorec promoteOnce :: "'a list \<Rightarrow> 'a SkipListLevelTester" where
  "promoteOnce seen =
     LevelTester (\<lambda>e. (e \<notin> set seen, promoteOnce (e # seen))) (promoteOnce seen)"

section \<open>The grid read off the free store\<close>

definition key_of :: "'a heap \<Rightarrow> nat \<Rightarrow> 'a SkipListKey" where
  "key_of h a = node_value (the (nodes h a))"

definition below_of :: "'a heap \<Rightarrow> nat \<Rightarrow> nat option" where
  "below_of h a = node_below (the (nodes h a))"

text \<open>
  \<open>node_list m p as\<close>: following \<open>next\<close> from \<open>p\<close> visits the live cells \<open>as\<close> and
  then reaches null. \<open>level_list\<close> is the same along \<open>below\<close> of the level cells.
\<close>

primrec node_list :: "(nat \<Rightarrow> 'a Node option) \<Rightarrow> nat option \<Rightarrow> nat list \<Rightarrow> bool" where
  "node_list m p [] \<longleftrightarrow> p = None"
| "node_list m p (a # as) \<longleftrightarrow>
     p = Some a \<and> (\<exists>n. m a = Some n \<and> node_list m (node_next n) as)"

primrec level_list :: "(nat \<Rightarrow> LNode option) \<Rightarrow> nat option \<Rightarrow> nat list \<Rightarrow> bool" where
  "level_list m p [] \<longleftrightarrow> p = None"
| "level_list m p (a # as) \<longleftrightarrow>
     p = Some a \<and> (\<exists>l. m a = Some l \<and> level_list m (level_below l) as)"

text \<open>
  A chain of one level: it starts at a negative sentinel, ends at a positive sentinel,
  and its keys increase strictly (invariant I3).
\<close>

definition row_ok :: "'a::linorder heap \<Rightarrow> nat list \<Rightarrow> bool" where
  "row_ok h as \<longleftrightarrow>
     as \<noteq> [] \<and> key_kind (key_of h (hd as)) = NegInf \<and> key_kind (key_of h (last as)) = PosInf \<and>
     sorted_wrt key_less (map (key_of h) as)"

text \<open>
  The tower property between a level and the level beneath it (invariant I2): every node
  of the upper chain points below to a node of the lower chain with an equal key.
\<close>

definition tower :: "'a heap \<Rightarrow> nat list \<Rightarrow> nat list \<Rightarrow> bool" where
  "tower h upper lower \<longleftrightarrow>
     (\<forall>a\<in>set upper. \<exists>b\<in>set lower. below_of h a = Some b \<and> key_eq (key_of h a) (key_of h b))"

text \<open>Every cell at or beyond the next unused address is free.\<close>

definition fresh_heap :: "'a heap \<Rightarrow> bool" where
  "fresh_heap h \<longleftrightarrow> (\<forall>a\<ge>brk h. nodes h a = None \<and> lnodes h a = None)"

text \<open>
  \<open>grid this h lvs rows\<close>: the object \<open>this\<close> owns, in the free store \<open>h\<close>, the level
  cells \<open>lvs\<close> and the chains \<open>rows\<close>, both listed from level 0 upwards. The level
  cells are linked from \<open>head\<close> downwards and numbered by their position, each chain
  is well formed, no cell belongs to two chains, consecutive levels tower, the nodes of
  level 0 have no node below, \<open>tail\<close> is the last node of the top level, and
  \<open>elements\<close> counts the nodes of level 0 other than the two sentinels.
\<close>

definition grid :: "'a::linorder SkipListSet \<Rightarrow> 'a heap \<Rightarrow> nat list \<Rightarrow> nat list list \<Rightarrow> bool" where
  "grid this h lvs rows \<longleftrightarrow>
     level_list (lnodes h) (head this) (rev lvs) \<and> rows \<noteq> [] \<and> length lvs = length rows \<and>
     (\<forall>L<length rows. \<exists>l. lnodes h (lvs ! L) = Some l \<and> level_value l = L \<and>
          node_list (nodes h) (level_next l) (rows ! L)) \<and>
     (\<forall>L<length rows. row_ok h (rows ! L)) \<and>
     (\<forall>i<length rows. \<forall>j<length rows. i \<noteq> j \<longrightarrow> set (rows ! i) \<inter> set (rows ! j) = {}) \<and>
     (\<forall>L. Suc L < length rows \<longrightarrow> tower h (rows ! Suc L) (rows ! L)) \<and>
     (\<forall>a\<in>set (rows ! 0). below_of h a = None) \<and>
     tail this = Some (last (last rows)) \<and>
     elements this = int (length (rows ! 0)) - 2 \<and>
     (\<forall>a\<ge>brk h. nodes h a = None \<and> lnodes h a = None)"

text \<open>
  What \<open>search\<close> returns on a chain \<open>row\<close> for the key \<open>k\<close>: null when a node of the
  chain holds an equal key, and otherwise the node after which \<open>k\<close> belongs.
\<close>

definition search_post :: "'a::linorder heap \<Rightarrow> 'a SkipListKey \<Rightarrow> nat list \<Rightarrow> nat option \<Rightarrow> bool" where
  "search_post h k row r =
     (case r of
        None \<Rightarrow> \<exists>c\<in>set row. key_eq (key_of h c) k
      | Some p \<Rightarrow> \<exists>pre b suf. row = pre @ p # b # suf \<and> key_less (key_of h p) k \<and>
                    key_less k (key_of h b))"




section \<open>Keys, chains and the search\<close>

lemma key_less_irrefl: "key_eq a b \<Longrightarrow> \<not> key_less a b"
  by (auto simp: key_eq_def key_less_def split: SkipListKind.splits)

lemma key_less_trans: "key_less a b \<Longrightarrow> key_less b c \<Longrightarrow> key_less a c"
  by (auto simp: key_less_def split: SkipListKind.splits)

lemma key_less_asym: "key_less a b \<Longrightarrow> \<not> key_less b a"
  by (auto simp: key_less_def split: SkipListKind.splits)

lemma key_total: "key_less a b \<or> key_eq a b \<or> key_less b a"
  by (cases "key_kind a"; cases "key_kind b") (auto simp: key_less_def key_eq_def)

lemma key_eq_sym: "key_eq a b \<Longrightarrow> key_eq b a"
  by (auto simp: key_eq_def)

lemma key_eq_less_left: "key_eq a b \<Longrightarrow> key_less a c = key_less b c"
  by (auto simp: key_less_def key_eq_def split: SkipListKind.splits)

lemma key_eq_less_right: "key_eq a b \<Longrightarrow> key_less c a = key_less c b"
  by (auto simp: key_less_def key_eq_def split: SkipListKind.splits)

lemma key_eq_trans: "key_eq a b \<Longrightarrow> key_eq b c \<Longrightarrow> key_eq a c"
  by (auto simp: key_eq_def)

lemma node_list_app:
  "node_list m p (as @ b # bs) \<Longrightarrow> \<exists>n. m b = Some n \<and> node_list m (node_next n) bs"
  by (induction as arbitrary: p) auto

lemma node_list_next:
  "node_list m p (as @ b # c # cs) \<Longrightarrow> \<exists>n. m b = Some n \<and> node_next n = Some c"
  by (induction as arbitrary: p) auto

lemma node_list_last:
  "node_list m p (as @ [b]) \<Longrightarrow> \<exists>n. m b = Some n \<and> node_next n = None"
  by (induction as arbitrary: p) auto








lemma grid_row_list:
  "grid this h lvs rows \<Longrightarrow> L < length rows \<Longrightarrow>
   \<exists>l. lnodes h (lvs ! L) = Some l \<and> level_value l = L \<and> node_list (nodes h) (level_next l) (rows ! L)"
  by (simp add: grid_def)

lemma grid_row_ok: "grid this h lvs rows \<Longrightarrow> L < length rows \<Longrightarrow> row_ok h (rows ! L)"
  by (simp add: grid_def)

lemma grid_tower: "grid this h lvs rows \<Longrightarrow> Suc L < length rows \<Longrightarrow> tower h (rows ! Suc L) (rows ! L)"
  by (simp add: grid_def)

lemma tower_down:
  assumes g: "grid this h lvs rows"
  shows "L < length rows \<Longrightarrow> m \<le> L \<Longrightarrow> b \<in> set (rows ! L) \<Longrightarrow>
         \<exists>c\<in>set (rows ! m). key_eq (key_of h b) (key_of h c)"
proof (induction L arbitrary: b)
  case 0
  then show ?case by (auto simp: key_eq_def)
next
  case (Suc L)
  show ?case
  proof (cases "m = Suc L")
    case True
    with Suc.prems show ?thesis by (auto simp: key_eq_def)
  next
    case False
    with Suc.prems have mL: "m \<le> L" by simp
    from grid_tower[OF g Suc.prems(1)] Suc.prems(3)
    obtain c where c: "c \<in> set (rows ! L)" "key_eq (key_of h b) (key_of h c)"
      by (auto simp: tower_def)
    from Suc.IH[OF _ mL c(1)] Suc.prems(1)
    obtain d where "d \<in> set (rows ! m)" "key_eq (key_of h c) (key_of h d)" by auto
    with c(2) show ?thesis by (blast intro: key_eq_trans)
  qed
qed

lemma search_loop_grid:
  assumes g: "grid this h lvs rows" and k: "key_kind k = Normal"
  shows "L < length rows \<Longrightarrow> m \<le> L \<Longrightarrow> rows ! L = pre @ a # suf \<Longrightarrow>
         key_less (key_of h a) k \<Longrightarrow>
         \<exists>r. search_loop h k (int m) (Some a) (int L) = Some (Inr r) \<and> search_post h k (rows ! m) r"
proof (induction L arbitrary: pre a suf)
  case 0
  note outer = 0
  from outer have m0: "m = 0" by simp
  from outer(3,4) show ?case
  proof (induction suf arbitrary: pre a)
    case Nil
    from grid_row_ok[OF g outer(1)] Nil(1) have "key_kind (key_of h a) = PosInf"
      by (simp add: row_ok_def)
    with Nil(2) show ?case by (simp add: key_less_def)
  next
    case (Cons b suf)
    from grid_row_list[OF g outer(1)] obtain p where nl: "node_list (nodes h) p (rows ! 0)"
      by blast
    from nl Cons.prems(1) obtain n where n: "nodes h a = Some n" "node_next n = Some b"
      using node_list_next by metis
    from nl Cons.prems(1) have "node_list (nodes h) p ((pre @ [a]) @ b # suf)" by simp
    then obtain nb where nb: "nodes h b = Some nb" using node_list_app by blast
    have ka: "node_value n = key_of h a" and kb: "node_value nb = key_of h b"
      using n nb by (simp_all add: key_of_def)
    have neq: "\<not> key_eq (key_of h a) k" using Cons.prems(2) key_less_irrefl by blast
    show ?case
    proof (cases "key_less k (key_of h b)")
      case True
      have "search_loop h k (int m) (Some a) (int 0) = Some (Inr (Some a))"
        using n nb ka kb neq True m0 by (subst search_loop.simps) simp
      moreover have "search_post h k (rows ! m) (Some a)"
        using Cons.prems True m0 by (auto simp: search_post_def)
      ultimately show ?thesis by blast
    next
      case False
      have step: "search_loop h k (int m) (Some a) (int 0) = search_loop h k (int m) (Some b) (int 0)"
        using n nb ka kb neq False by (subst search_loop.simps) simp
      from False key_total[of k "key_of h b"]
      consider "key_eq (key_of h b) k" | "key_less (key_of h b) k"
        by (auto dest: key_eq_sym)
      then show ?thesis
      proof cases
        case 1
        have "search_loop h k (int m) (Some b) (int 0) = Some (Inr None)"
          using nb kb 1 by (subst search_loop.simps) simp
        moreover have "search_post h k (rows ! m) None"
          using Cons.prems(1) 1 m0 by (auto simp: search_post_def)
        ultimately show ?thesis using step by simp
      next
        case 2
        from Cons.prems(1) have "rows ! 0 = (pre @ [a]) @ b # suf" by simp
        from Cons.IH[OF this 2] step show ?thesis by simp
      qed
    qed
  qed
next
  case (Suc L)
  note outer = Suc
  from outer(4,5) show ?case
  proof (induction suf arbitrary: pre a)
    case Nil
    from grid_row_ok[OF g outer(2)] Nil(1) have "key_kind (key_of h a) = PosInf"
      by (simp add: row_ok_def)
    with Nil(2) show ?case by (simp add: key_less_def)
  next
    case (Cons b suf)
    from grid_row_list[OF g outer(2)] obtain p where nl: "node_list (nodes h) p (rows ! Suc L)"
      by blast
    from nl Cons.prems(1) obtain n where n: "nodes h a = Some n" "node_next n = Some b"
      using node_list_next by metis
    from nl Cons.prems(1) have "node_list (nodes h) p ((pre @ [a]) @ b # suf)" by simp
    then obtain nb where nb: "nodes h b = Some nb" using node_list_app by blast
    have ka: "node_value n = key_of h a" and kb: "node_value nb = key_of h b"
      and bl: "node_below n = below_of h a"
      using n nb by (simp_all add: key_of_def below_of_def)
    have neq: "\<not> key_eq (key_of h a) k" using Cons.prems(2) key_less_irrefl by blast
    show ?case
    proof (cases "key_less k (key_of h b)")
      case True
      show ?thesis
      proof (cases "m = Suc L")
        case True
        have "search_loop h k (int m) (Some a) (int (Suc L)) = Some (Inr (Some a))"
          using n nb ka kb neq \<open>key_less k (key_of h b)\<close> True by (subst search_loop.simps) simp
        moreover have "search_post h k (rows ! m) (Some a)"
          using Cons.prems \<open>key_less k (key_of h b)\<close> True by (auto simp: search_post_def)
        ultimately show ?thesis by blast
      next
        case False
        with outer(3) have mL: "m \<le> L" by simp
        have "a \<in> set (rows ! Suc L)" using Cons.prems(1) by simp
        with grid_tower[OF g outer(2)]
        obtain c where c: "c \<in> set (rows ! L)" "below_of h a = Some c"
          "key_eq (key_of h a) (key_of h c)" by (auto simp: tower_def)
        from c(1) obtain pre' suf' where dec: "rows ! L = pre' @ c # suf'"
          by (auto simp: in_set_conv_decomp)
        have kc: "key_less (key_of h c) k" using c(3) Cons.prems(2) key_eq_less_left by blast
        have "search_loop h k (int m) (Some a) (int (Suc L)) = search_loop h k (int m) (Some c) (int L)"
          using n nb ka kb bl c(2) neq \<open>key_less k (key_of h b)\<close> mL
          by (subst search_loop.simps) simp
        with outer(1)[OF _ mL dec kc] outer(2) show ?thesis by simp
      qed
    next
      case False
      have step: "search_loop h k (int m) (Some a) (int (Suc L)) = search_loop h k (int m) (Some b) (int (Suc L))"
        using n nb ka kb neq False by (subst search_loop.simps) simp
      from False key_total[of k "key_of h b"]
      consider "key_eq (key_of h b) k" | "key_less (key_of h b) k"
        by (auto dest: key_eq_sym)
      then show ?thesis
      proof cases
        case 1
        have "search_loop h k (int m) (Some b) (int (Suc L)) = Some (Inr None)"
          using nb kb 1 by (subst search_loop.simps) simp
        moreover have "b \<in> set (rows ! Suc L)" using Cons.prems(1) by simp
        from tower_down[OF g outer(2,3) this] 1
        have "search_post h k (rows ! m) None"
          by (auto simp: search_post_def intro: key_eq_trans dest: key_eq_sym)
        ultimately show ?thesis using step by simp
      next
        case 2
        from Cons.prems(1) have "rows ! Suc L = (pre @ [a]) @ b # suf" by simp
        from Cons.IH[OF this 2] step show ?thesis by simp
      qed
    qed
  qed
qed


lemma grid_head:
  assumes g: "grid this h lvs rows"
  shows "\<exists>l a as. head this = Some (lvs ! (length rows - 1)) \<and>
           lnodes h (lvs ! (length rows - 1)) = Some l \<and> level_value l = length rows - 1 \<and>
           rows ! (length rows - 1) = a # as \<and> level_next l = Some a \<and>
           key_kind (key_of h a) = NegInf"
proof -
  from g have ne: "rows \<noteq> []" and len: "length lvs = length rows"
    and ll: "level_list (lnodes h) (head this) (rev lvs)" by (simp_all add: grid_def)
  let ?t = "length rows - 1"
  from ne have t: "?t < length rows" by (cases rows) auto
  from ne len have "rev lvs = lvs ! ?t # rev (butlast lvs)"
    by (cases lvs rule: rev_cases) (auto simp: nth_append)
  with ll have hd: "head this = Some (lvs ! ?t)" by simp
  from grid_row_list[OF g t] obtain l where l: "lnodes h (lvs ! ?t) = Some l" "level_value l = ?t"
    "node_list (nodes h) (level_next l) (rows ! ?t)" by blast
  from grid_row_ok[OF g t] obtain a as where r: "rows ! ?t = a # as" "key_kind (key_of h a) = NegInf"
    by (cases "rows ! ?t") (auto simp: row_ok_def)
  with l(3) have "level_next l = Some a" by simp
  with hd l r show ?thesis by blast
qed

lemma search_grid:
  assumes g: "grid this h lvs rows" and m: "m < length rows"
  shows "\<exists>r. search e (int m) this h = Some (Inr r) \<and>
             search_post h (SkipListKey Normal e) (rows ! m) r"
proof -
  from grid_head[OF g] obtain l a as where f: "head this = Some (lvs ! (length rows - 1))"
    "lnodes h (lvs ! (length rows - 1)) = Some l" "level_value l = length rows - 1"
    "rows ! (length rows - 1) = a # as" "level_next l = Some a" "key_kind (key_of h a) = NegInf"
    by blast
  have t: "length rows - 1 < length rows" "m \<le> length rows - 1" using m by simp_all
  have dec: "rows ! (length rows - 1) = [] @ a # as" using f(4) by simp
  have kl: "key_less (key_of h a) (SkipListKey Normal e)" using f(6) by (simp add: key_less_def)
  from search_loop_grid[OF g _ t dec kl, of ]
  obtain r where "search_loop h (SkipListKey Normal e) (int m) (Some a) (int (length rows - 1)) = Some (Inr r)"
    "search_post h (SkipListKey Normal e) (rows ! m) r" by auto
  then show ?thesis using f by (auto simp: search_def lnode_at_def)
qed


































lemma key_eq_Normal: "key_eq k (SkipListKey Normal e) \<longleftrightarrow> k = SkipListKey Normal e"
  by (cases k) (auto simp: key_eq_def)

lemma search_post_absent:
  assumes ok: "row_ok h row" and dec: "row = pre @ p # b # suf"
    and kp: "key_less (key_of h p) k" and kb: "key_less k (key_of h b)" and c: "c \<in> set row"
  shows "\<not> key_eq (key_of h c) k"
proof -
  from ok dec have s: "sorted_wrt key_less (map (key_of h) pre @ key_of h p # key_of h b # map (key_of h) suf)"
    by (simp add: row_ok_def)
  from c dec consider "c \<in> set pre" | "c = p" | "c = b" | "c \<in> set suf" by auto
  then have "key_less (key_of h c) k \<or> key_less k (key_of h c)"
  proof cases
    case 1
    with s have "key_less (key_of h c) (key_of h p)" by (auto simp: sorted_wrt_append)
    with kp show ?thesis using key_less_trans by blast
  next
    case 2 with kp show ?thesis by simp
  next
    case 3 with kb show ?thesis by simp
  next
    case 4
    with s have "key_less (key_of h b) (key_of h c)" by (auto simp: sorted_wrt_append)
    with kb show ?thesis using key_less_trans by blast
  qed
  then show ?thesis using key_less_irrefl key_eq_sym by blast
qed

lemma search_found_iff:
  assumes g: "grid this h lvs rows" and m: "m < length rows"
  shows "\<exists>r. search e (int m) this h = Some (Inr r) \<and>
           (r = None \<longleftrightarrow> SkipListKey Normal e \<in> key_of h ` set (rows ! m)) \<and>
           search_post h (SkipListKey Normal e) (rows ! m) r"
proof -
  from search_grid[OF g m, of e] obtain r where r: "search e (int m) this h = Some (Inr r)"
    "search_post h (SkipListKey Normal e) (rows ! m) r" by blast
  have "r = None \<longleftrightarrow> SkipListKey Normal e \<in> key_of h ` set (rows ! m)"
  proof (cases r)
    case None
    with r(2) show ?thesis by (force simp: search_post_def key_eq_Normal)
  next
    case (Some p)
    with r(2) obtain pre b suf where d: "rows ! m = pre @ p # b # suf"
      "key_less (key_of h p) (SkipListKey Normal e)" "key_less (SkipListKey Normal e) (key_of h b)"
      by (auto simp: search_post_def)
    from search_post_absent[OF grid_row_ok[OF g m] d]
    have "\<forall>c\<in>set (rows ! m). key_of h c \<noteq> SkipListKey Normal e"
      by (simp add: key_eq_Normal)
    with Some show ?thesis by auto
  qed
  with r show ?thesis by blast
qed



section \<open>The claims about add, contains and search\<close>

lemmas run_defs = built_def after_def empty_heap_def SkipListSet_new_def new_LNode_def new_Node_def
  set_level_next_def set_node_next_def updateTail_def lnode_at_def node_at_def
  updateTail_loop.simps Let_def search_def search_loop.simps add_def add_loop.simps
  createNewLevel_def insertNewNode_def key_eq_def key_less_def contains_def levelCount_def
  getLevel_def getLevel_loop.simps isElementOnLevel_def isElementOnLevel_loop.simps
  elementsOnLevel_def count_loop.simps size_of_def to_unsigned_def catch_delete_def

lemma grid_fresh: "grid this h lvs rows \<Longrightarrow> fresh_heap h"
  by (simp add: grid_def fresh_heap_def)


lemma add_present:
  assumes g: "grid this h lvs rows" and p: "SkipListKey Normal e \<in> key_of h ` set (rows ! 0)"
  shows "add e this h = Some (Inl NullDeref)"
proof -
  have "0 < length rows" using g by (simp add: grid_def)
  from search_found_iff[OF g this, of e] p show ?thesis
    by (auto simp: add_def)
qed






text \<open>
  Claim C1 says that \<open>add\<close> of an element already present is a no-op. In the
  source \<open>search\<close> returns null for a present element and \<open>add\<close> reads
  \<open>current->next\<close> through it: on the set holding 5, \<open>add(5)\<close> dereferences a null
  pointer.
\<close>

theorem add_present_null_deref:
  "after (built promoteNever 10 [5::int]) (add 5) = Some (Some (Inl NullDeref))"
  by (simp add: run_defs)

text \<open>
  Claim C6, scenario B. With the promotion policy that answers true once per distinct
  element and then false, after 5, 1 and 3 are added to an empty set in that order there
  are two levels, and each of the three elements is on level 1 and on level 0.
\<close>

theorem scenario_B:
  "after (built (promoteOnce []) 20 [5::int, 1, 3]) levelCount = Some (Inr 2) \<and>
   after (built (promoteOnce []) 20 [5::int, 1, 3]) (isElementOnLevel 5 1) = Some (Some (Inr True)) \<and>
   after (built (promoteOnce []) 20 [5::int, 1, 3]) (isElementOnLevel 5 0) = Some (Some (Inr True)) \<and>
   after (built (promoteOnce []) 20 [5::int, 1, 3]) (isElementOnLevel 1 1) = Some (Some (Inr True)) \<and>
   after (built (promoteOnce []) 20 [5::int, 1, 3]) (isElementOnLevel 1 0) = Some (Some (Inr True)) \<and>
   after (built (promoteOnce []) 20 [5::int, 1, 3]) (isElementOnLevel 3 1) = Some (Some (Inr True)) \<and>
   after (built (promoteOnce []) 20 [5::int, 1, 3]) (isElementOnLevel 3 0) = Some (Some (Inr True))"
  by (simp add: run_defs)

section \<open>The search result, the invariants, allocation failure and moves\<close>






text \<open>
  Claim C4 says that an allocation failure anywhere in \<open>add\<close> leaves the structure as
  it was before the call. Only the level-0 splice is inside a \<open>try\<close> block. On an
  empty set whose policy promotes 5, with the third allocation of \<open>add(5)\<close> failing,
  the exception escapes from \<open>createNewLevel\<close> after \<open>head\<close> was moved to a new
  level cell with no chain: the element stays inserted (\<open>size\<close> is 1, not 0), there
  are two levels, \<open>contains(7)\<close> is true and \<open>elementsOnLevel(1)\<close> is the unsigned
  value of -2.
\<close>

theorem add_alloc_failure_not_rolled_back:
  "\<exists>this1 h1.
     after (built (promoteOnce []) 5 []) (add (5::int)) = Some (Some (Inl (BadAlloc (this1, h1)))) \<and>
     size_of this1 = 1 \<and> levelCount this1 h1 = Inr 2 \<and>
     contains 7 this1 h1 = Some (Inr True) \<and>
     elementsOnLevel 1 this1 h1 = Some (Inr 4294967294)"
  by (simp add: run_defs)









end
